theory Spec2Isabelle
  imports Complex_Main
begin

section \<open>Python strings and integers, as far as server.py uses them\<close>

text \<open>
  Strings are lists of characters; a character is read as a code point below 256.
  The whitespace of \<open>str.strip\<close>, \<open>str.split\<close>, \<open>int\<close> and of the pattern \<open>\s\<close> is the
  same set of code points: tab, line feed, vertical tab, form feed, carriage return,
  the four separators 28 to 31, the space, and 133 and 160.
\<close>

datatype py_error =
  ValueError | IndexError | CalledProcessError | FileNotFoundError | UnicodeDecodeError

definition isspace :: "char \<Rightarrow> bool" where
  "isspace c = (let n = (of_char c :: nat)
     in (9 \<le> n \<and> n \<le> 13) \<or> (28 \<le> n \<and> n \<le> 32) \<or> n = 133 \<or> n = 160)"

definition isdigit :: "char \<Rightarrow> bool" where
  "isdigit c = (let n = (of_char c :: nat) in 48 \<le> n \<and> n \<le> 57)"

definition digit_of :: "char \<Rightarrow> nat" where
  "digit_of c = of_char c - 48"

text \<open>\<open>s.strip()\<close>\<close>

definition py_strip :: "string \<Rightarrow> string" where
  "py_strip s = rev (dropWhile isspace (rev (dropWhile isspace s)))"

text \<open>\<open>s.startswith(p)\<close>, and \<open>sub in s\<close>: some suffix of \<open>s\<close> starts with \<open>sub\<close>.\<close>

fun startswith :: "string \<Rightarrow> string \<Rightarrow> bool" where
  "startswith [] s = True"
| "startswith (p # ps) [] = False"
| "startswith (p # ps) (c # cs) = (p = c \<and> startswith ps cs)"

fun py_in :: "string \<Rightarrow> string \<Rightarrow> bool" where
  "py_in sub [] = (sub = [])"
| "py_in sub (c # cs) = (startswith sub (c # cs) \<or> py_in sub cs)"

text \<open>
  \<open>s.replace(old, new)\<close>: the occurrences of \<open>old\<close> are replaced from the left, without
  overlap. For an empty \<open>old\<close> Python puts \<open>new\<close> before every character and at the end.
\<close>

fun replace_from :: "string \<Rightarrow> string \<Rightarrow> string \<Rightarrow> string" where
  "replace_from old new [] = []"
| "replace_from old new (c # cs) =
     (if old \<noteq> [] \<and> startswith old (c # cs)
      then new @ replace_from old new (drop (length old) (c # cs))
      else c # replace_from old new cs)"

definition py_replace :: "string \<Rightarrow> string \<Rightarrow> string \<Rightarrow> string" where
  "py_replace old new s =
     (if old = [] then new @ concat (map (\<lambda>c. c # new) s) else replace_from old new s)"

text \<open>
  \<open>int(s)\<close> in base 10: surrounding whitespace is dropped, one sign is allowed, and the rest
  is a non-empty run of digits in which single underscores may stand between two digits.
  Anything else raises \<open>ValueError\<close>. The flag of \<open>int_body\<close> says that the character before
  was a digit. (The interpreter's configurable limit on the number of digits is left out.)
\<close>

fun int_body :: "string \<Rightarrow> nat \<Rightarrow> bool \<Rightarrow> nat option" where
  "int_body [] acc prev = (if prev then Some acc else None)"
| "int_body (c # cs) acc prev =
     (if isdigit c then int_body cs (10 * acc + digit_of c) True
      else if c = CHR ''_'' \<and> prev then int_body cs acc False
      else None)"

definition py_int :: "string \<Rightarrow> py_error + int" where
  "py_int s =
     (let t = py_strip s;
          neg = (t \<noteq> [] \<and> hd t = CHR ''-'');
          body = (if t \<noteq> [] \<and> (hd t = CHR ''-'' \<or> hd t = CHR ''+'') then tl t else t)
      in case int_body body 0 False of
           None \<Rightarrow> Inl ValueError
         | Some n \<Rightarrow> Inr (if neg then - int n else int n))"

text \<open>The value of a run of decimal digits, most significant digit first.\<close>

definition digits_value :: "string \<Rightarrow> nat" where
  "digits_value ds = foldl (\<lambda>acc c. 10 * acc + digit_of c) 0 ds"

text \<open>\<open>s.split(sep)\<close> for a separator of one character: the pieces between the separators.\<close>

fun split_on :: "char \<Rightarrow> string \<Rightarrow> string \<Rightarrow> string list" where
  "split_on sep [] cur = [rev cur]"
| "split_on sep (c # cs) cur =
     (if c = sep then rev cur # split_on sep cs [] else split_on sep cs (c # cur))"

definition split_lines :: "string \<Rightarrow> string list" where
  "split_lines s = split_on (CHR 0x0A) s []"

text \<open>
  \<open>re.split(r'\s+', s)\<close>: the pieces between maximal runs of whitespace; whitespace at either
  end leaves an empty piece there. \<open>cur\<close> is the piece being read, reversed, and the flag
  says that the character before was whitespace.
\<close>

fun split_ws :: "string \<Rightarrow> string \<Rightarrow> bool \<Rightarrow> string list" where
  "split_ws [] cur insp = [rev cur]"
| "split_ws (c # cs) cur insp =
     (if isspace c then (if insp then split_ws cs cur True else rev cur # split_ws cs [] True)
      else split_ws cs (c # cur) False)"

definition re_split_ws :: "string \<Rightarrow> string list" where
  "re_split_ws s = split_ws s [] False"

text \<open>\<open>s.split()\<close>: the same pieces without the empty ones.\<close>

definition py_split :: "string \<Rightarrow> string list" where
  "py_split s = filter (\<lambda>t. t \<noteq> []) (re_split_ws s)"

text \<open>Sequencing of a computation that may raise.\<close>

definition bind_err :: "py_error + 'a \<Rightarrow> ('a \<Rightarrow> py_error + 'b) \<Rightarrow> py_error + 'b" where
  "bind_err m f = (case m of Inl e \<Rightarrow> Inl e | Inr v \<Rightarrow> f v)"

section \<open>Quantity tokens\<close>

text \<open>
  Line 132 of \<open>parse_node_metrics\<close> and line 160 of \<open>process_pod_metrics\<close>:
  \<^verbatim>\<open>int(cpu.replace("m", "").replace("%", "")) if "m" in cpu else int(cpu.replace("%", ""))\<close>
\<close>

definition node_cpu :: "string \<Rightarrow> py_error + int" where
  "node_cpu cpu =
     (if py_in ''m'' cpu then py_int (py_replace ''%'' '''' (py_replace ''m'' '''' cpu))
      else py_int (py_replace ''%'' '''' cpu))"

definition pod_cpu :: "string \<Rightarrow> py_error + int" where
  "pod_cpu cpu =
     (if py_in ''m'' cpu then py_int (py_replace ''%'' '''' (py_replace ''m'' '''' cpu))
      else py_int (py_replace ''%'' '''' cpu))"

text \<open>Line 133 of \<open>parse_node_metrics\<close>: the memory token of a node line.\<close>

definition node_memory :: "string \<Rightarrow> py_error + int" where
  "node_memory memory =
     (if py_in ''Mi'' memory
      then bind_err (py_int (py_replace ''Mi'' '''' memory)) (\<lambda>v. Inr (v * 1024))
      else if py_in ''Gi'' memory
      then bind_err (py_int (py_replace ''Gi'' '''' memory)) (\<lambda>v. Inr (v * 1024 * 1024))
      else if py_in ''Ki'' memory
      then py_int (py_replace ''Ki'' '''' memory)
      else py_int (py_replace ''%'' '''' memory))"

text \<open>Line 161 of \<open>process_pod_metrics\<close>: the memory token of a pod line.\<close>

definition pod_memory :: "string \<Rightarrow> py_error + int" where
  "pod_memory memory =
     (if py_in ''Mi'' memory
      then py_int (py_replace ''Mi'' '''' memory)
      else if py_in ''Gi'' memory
      then bind_err (py_int (py_replace ''Gi'' '''' memory)) (\<lambda>v. Inr (v * 1024))
      else if py_in ''Ki'' memory
      then bind_err (py_int (py_replace ''Ki'' '''' memory)) (\<lambda>v. Inr (v div 1024))
      else py_int (py_replace ''%'' '''' memory))"

section \<open>The cluster query command\<close>

text \<open>
  Every \<open>subprocess.run(..., capture_output=True, text=True, check=True)\<close> of server.py
  starts \<open>kubectl\<close>. What the model takes from the environment is the outcome of that call.
  Either the call itself raises, because the program cannot be started
  (\<open>FileNotFoundError\<close>) or its output cannot be decoded (\<open>UnicodeDecodeError\<close>), or the
  command exits with a status and a standard output. On a non-zero exit status
  \<open>check=True\<close> raises \<open>CalledProcessError\<close>.
\<close>

record proc =
  returncode :: int
  stdout :: string

datatype outcome = Exits proc | Fails py_error

definition run_checked :: "outcome \<Rightarrow> py_error + string" where
  "run_checked r =
     (case r of
        Fails e \<Rightarrow> Inl e
      | Exits p \<Rightarrow> (if returncode p \<noteq> 0 then Inl CalledProcessError else Inr (stdout p)))"

text \<open>
  \<open>collect_node_metrics\<close> and \<open>collect_pod_metrics\<close>: the output of the command, or the
  empty string when \<open>CalledProcessError\<close> is caught. No other exception is caught.
\<close>

definition collect_node_metrics :: "outcome \<Rightarrow> py_error + string" where
  "collect_node_metrics p =
     (case run_checked p of
        Inr out \<Rightarrow> Inr out
      | Inl CalledProcessError \<Rightarrow> Inr ''''
      | Inl e \<Rightarrow> Inl e)"

definition collect_pod_metrics :: "outcome \<Rightarrow> py_error + string" where
  "collect_pod_metrics p =
     (case run_checked p of
        Inr out \<Rightarrow> Inr out
      | Inl CalledProcessError \<Rightarrow> Inr ''''
      | Inl e \<Rightarrow> Inl e)"

text \<open>\<open>lookup_pod_image\<close>, on the outcome of the image query for the pod.\<close>

definition lookup_pod_image :: "outcome \<Rightarrow> py_error + string" where
  "lookup_pod_image p =
     (case run_checked p of
        Inr out \<Rightarrow> Inr (py_strip out)
      | Inl CalledProcessError \<Rightarrow> Inr ''unknown''
      | Inl e \<Rightarrow> Inl e)"

text \<open>
  \<open>lookup_allocated_memory\<close>, on the outcome of the memory-request query for the pod.
  The \<open>try\<close> covers the whole body and catches \<open>CalledProcessError\<close> only, so a
  \<open>ValueError\<close> of \<open>int\<close> leaves the function.
\<close>

definition lookup_allocated_memory :: "outcome \<Rightarrow> py_error + int" where
  "lookup_allocated_memory p =
     (case run_checked p of
        Inl CalledProcessError \<Rightarrow> Inr 0
      | Inl e \<Rightarrow> Inl e
      | Inr out \<Rightarrow>
          (let allocated_memory = py_strip out
           in if allocated_memory = [] then Inr 0
              else
                (let allocated_memory_list = py_split allocated_memory;
                     allocated_memory =
                       (if length allocated_memory_list > 0 then allocated_memory_list ! 0
                        else ''0'')
                 in if py_in ''Mi'' allocated_memory
                    then py_int (py_replace ''Mi'' '''' allocated_memory)
                    else if py_in ''Gi'' allocated_memory
                    then bind_err (py_int (py_replace ''Gi'' '''' allocated_memory))
                           (\<lambda>v. Inr (v * 1024))
                    else if py_in ''Ki'' allocated_memory
                    then bind_err (py_int (py_replace ''Ki'' '''' allocated_memory))
                           (\<lambda>v. Inr (v div 1024))
                    else py_int allocated_memory)))"

section \<open>The sample tables and the sampler\<close>

text \<open>
  A row of \<open>node_metrics_df\<close> has the columns timestamp, node, cpu(cores), memory(bytes);
  a row of \<open>pod_metrics_df\<close> the columns timestamp, pod, namespace, cpu(cores),
  memory(bytes), image. A table is the list of its rows, \<open>pd.concat\<close> appends.
\<close>

record node_row =
  node_timestamp :: real
  node_name :: string
  node_cpu_cores :: int
  node_memory_bytes :: int

record pod_row =
  pod_timestamp :: real
  pod_name :: string
  pod_namespace :: string
  pod_cpu_cores :: int
  pod_memory_bytes :: int
  pod_image :: string

text \<open>
  The loop of \<open>parse_node_metrics\<close> over \<open>lines[1:]\<close>, with \<open>parsed_data\<close> as accumulator.
  Nothing in the loop catches an exception: a \<open>ValueError\<close> of \<open>int\<close> ends it.
\<close>

fun parse_node_lines :: "real \<Rightarrow> string list \<Rightarrow> node_row list \<Rightarrow> py_error + node_row list" where
  "parse_node_lines timestamp [] parsed_data = Inr parsed_data"
| "parse_node_lines timestamp (line # lines) parsed_data =
     (let parts = re_split_ws line
      in if length parts \<ge> 3
         then bind_err (node_cpu (parts ! 1)) (\<lambda>cpu.
              bind_err (node_memory (parts ! 2)) (\<lambda>memory.
              parse_node_lines timestamp lines
                (parsed_data @ [\<lparr>node_timestamp = timestamp, node_name = parts ! 0,
                                 node_cpu_cores = cpu, node_memory_bytes = memory\<rparr>])))
         else parse_node_lines timestamp lines parsed_data)"

definition parse_node_metrics :: "string \<Rightarrow> real \<Rightarrow> node_row list \<Rightarrow> py_error + node_row list" where
  "parse_node_metrics output timestamp node_metrics =
     bind_err (parse_node_lines timestamp (tl (split_lines (py_strip output))) [])
       (\<lambda>parsed_data. Inr (node_metrics @ parsed_data))"

text \<open>
  \<open>process_pod_metrics\<close>: the whole body is inside \<open>try ... except Exception\<close>, which
  returns \<open>None\<close>. The first argument is the environment of \<open>lookup_pod_image\<close>: the outcome
  of the image query for a namespace and a pod.
\<close>

definition process_pod_metrics ::
  "(string \<Rightarrow> string \<Rightarrow> outcome) \<Rightarrow> real \<Rightarrow> string \<Rightarrow> string \<Rightarrow> string \<Rightarrow> string \<Rightarrow> pod_row option"
where
  "process_pod_metrics image_env timestamp namespace pod cpu memory =
     (case bind_err (pod_cpu cpu) (\<lambda>cpu.
           bind_err (pod_memory memory) (\<lambda>memory.
           bind_err (lookup_pod_image (image_env namespace pod)) (\<lambda>img.
           Inr \<lparr>pod_timestamp = timestamp, pod_name = pod, pod_namespace = namespace,
                pod_cpu_cores = cpu, pod_memory_bytes = memory, pod_image = img\<rparr>)))
      of Inl e \<Rightarrow> None | Inr row \<Rightarrow> Some row)"

text \<open>
  \<open>parse_pod_metrics\<close>: one future per line with at least five parts; the results are
  read in the order of submission and those that are not \<open>None\<close> are kept.
\<close>

fun pod_futures :: "(string \<Rightarrow> string \<Rightarrow> outcome) \<Rightarrow> real \<Rightarrow> string list \<Rightarrow> pod_row option list" where
  "pod_futures image_env timestamp [] = []"
| "pod_futures image_env timestamp (line # lines) =
     (let parts = re_split_ws line
      in if length parts \<ge> 5
         then process_pod_metrics image_env timestamp (parts ! 0) (parts ! 1) (parts ! 2) (parts ! 3)
              # pod_futures image_env timestamp lines
         else pod_futures image_env timestamp lines)"

definition parse_pod_metrics ::
  "(string \<Rightarrow> string \<Rightarrow> outcome) \<Rightarrow> string \<Rightarrow> real \<Rightarrow> pod_row list \<Rightarrow> pod_row list"
where
  "parse_pod_metrics image_env output timestamp pod_metrics =
     pod_metrics @
     List.map_filter (\<lambda>result. result)
       (pod_futures image_env timestamp (tl (split_lines (py_strip output))))"

text \<open>
  \<open>collect_metrics\<close> is \<open>while True\<close> around one sampling cycle. A cycle reads the clock,
  runs the two commands and parses what they printed. \<open>cycle\<close> is what the environment
  delivers in one cycle; \<open>store\<close> holds the two global tables.
\<close>

record cycle =
  cycle_timestamp :: real
  node_top :: outcome
  pod_top :: outcome
  image_query :: "string \<Rightarrow> string \<Rightarrow> outcome"

record store =
  node_metrics_df :: "node_row list"
  pod_metrics_df :: "pod_row list"

definition collect_cycle :: "cycle \<Rightarrow> store \<Rightarrow> py_error + store" where
  "collect_cycle c st =
     bind_err (collect_node_metrics (node_top c)) (\<lambda>node_output.
     bind_err (collect_pod_metrics (pod_top c)) (\<lambda>pod_output.
     bind_err (if node_output \<noteq> []
               then parse_node_metrics node_output (cycle_timestamp c) (node_metrics_df st)
               else Inr (node_metrics_df st)) (\<lambda>node_metrics.
     Inr \<lparr>node_metrics_df = node_metrics,
          pod_metrics_df =
            (if pod_output \<noteq> []
             then parse_pod_metrics (image_query c) pod_output (cycle_timestamp c) (pod_metrics_df st)
             else pod_metrics_df st)\<rparr>)))"

text \<open>
  The loop has no exit of its own. It is run on the list of the cycles the environment
  delivers: \<open>Inr\<close> is the store after all of them, with the loop still running, and
  \<open>Inl\<close> is the exception that ended the loop, and with it the sampler thread, in one of them.
\<close>

fun collect_metrics :: "cycle list \<Rightarrow> store \<Rightarrow> py_error + store" where
  "collect_metrics [] st = Inr st"
| "collect_metrics (c # cs) st =
     (case collect_cycle c st of Inl e \<Rightarrow> Inl e | Inr st' \<Rightarrow> collect_metrics cs st')"

section \<open>The report and the shutdown summary\<close>

text \<open>
  \<open>Series.unique()\<close>: the distinct values in the order of their first occurrence.
  \<open>Series.mean()\<close> and \<open>Series.max()\<close> of a series of integers; numbers that Python holds as
  floats are real numbers here, so rounding is left out. Of an empty series pandas gives
  NaN: both functions are used on the rows of an image that occurs in the table.
\<close>

fun unique :: "'a list \<Rightarrow> 'a list" where
  "unique [] = []"
| "unique (x # xs) = x # unique (filter (\<lambda>y. y \<noteq> x) xs)"

definition series_mean :: "int list \<Rightarrow> real" where
  "series_mean xs = real_of_int (sum_list xs) / real (length xs)"

fun series_max :: "int list \<Rightarrow> int" where
  "series_max (x # xs) = fold max xs x"

record recommendation =
  rec_image :: string
  avg_cpu :: real
  max_cpu :: int
  avg_memory :: real
  max_memory :: int
  requested_cpu :: int
  requested_memory :: int
  recommended_cpu :: real
  recommended_memory :: real
  cpu_over_provisioned :: real
  memory_over_provisioned :: real

text \<open>
  The body of the loop of \<open>get_report\<close> for one image. The first argument is the
  environment of \<open>lookup_allocated_memory\<close>. \<open>image_data.iloc[0]\<close> raises \<open>IndexError\<close> on a
  selection without rows.
\<close>

definition report_entry ::
  "(string \<Rightarrow> string \<Rightarrow> outcome) \<Rightarrow> pod_row list \<Rightarrow> string \<Rightarrow> py_error + recommendation"
where
  "report_entry memory_env pod_metrics img =
     (let image_data = filter (\<lambda>row. pod_image row = img) pod_metrics
      in case image_data of
           [] \<Rightarrow> Inl IndexError
         | first # _ \<Rightarrow>
            (let avg_cpu = series_mean (map pod_cpu_cores image_data);
                 max_cpu = series_max (map pod_cpu_cores image_data);
                 avg_memory = series_mean (map pod_memory_bytes image_data);
                 max_memory = series_max (map pod_memory_bytes image_data)
             in bind_err (lookup_allocated_memory
                            (memory_env (pod_namespace first) (pod_name first)))
                  (\<lambda>allocated_memory.
                    (let recommended_cpu = (if avg_cpu > 0 then avg_cpu / 0.9 else 1);
                         recommended_memory =
                           (if max_memory > 0 then real_of_int max_memory / 0.9 else 1);
                         cpu_over =
                           (if recommended_cpu > 0 then real_of_int max_cpu / recommended_cpu
                            else 0);
                         memory_over =
                           (if recommended_memory > 0
                            then real_of_int allocated_memory / recommended_memory else 0)
                     in Inr \<lparr>rec_image = img, avg_cpu = avg_cpu, max_cpu = max_cpu,
                             avg_memory = avg_memory, max_memory = max_memory,
                             requested_cpu = max_cpu, requested_memory = allocated_memory,
                             recommended_cpu = recommended_cpu,
                             recommended_memory = recommended_memory,
                             cpu_over_provisioned = cpu_over,
                             memory_over_provisioned = memory_over\<rparr>))))"

fun report_loop ::
  "(string \<Rightarrow> string \<Rightarrow> outcome) \<Rightarrow> pod_row list \<Rightarrow> string list \<Rightarrow> recommendation list
   \<Rightarrow> py_error + recommendation list"
where
  "report_loop memory_env pod_metrics [] report = Inr report"
| "report_loop memory_env pod_metrics (img # images) report =
     (case report_entry memory_env pod_metrics img of
        Inl e \<Rightarrow> Inl e
      | Inr r \<Rightarrow> report_loop memory_env pod_metrics images (report @ [r]))"

text \<open>
  \<open>get_report\<close>: \<open>Inr\<close> is the report that is sent as JSON, \<open>Inl\<close> the exception whose text
  is sent instead.
\<close>

definition get_report ::
  "(string \<Rightarrow> string \<Rightarrow> outcome) \<Rightarrow> pod_row list \<Rightarrow> py_error + recommendation list"
where
  "get_report memory_env pod_metrics =
     (if pod_metrics \<noteq> []
      then report_loop memory_env pod_metrics (unique (map pod_image pod_metrics)) []
      else Inr [])"

text \<open>
  The section of \<open>summarize_metrics\<close> on the pod table, which prints for every image the
  maxima, the recommended CPU request when the CPU maximum is positive, and the memory
  utilization and the recommended memory request when the memory maximum is positive.
  The record holds the numbers before they are formatted; \<open>None\<close> is a line that is not
  printed. (The section on the node table prints minimum, maximum and mean per node.)
\<close>

record image_summary =
  sum_image :: string
  sum_max_cpu :: int
  sum_max_memory :: int
  sum_recommended_cpu :: "real option"
  sum_memory_utilization :: "real option"
  sum_recommended_memory :: "real option"

definition summary_entry ::
  "(string \<Rightarrow> string \<Rightarrow> outcome) \<Rightarrow> pod_row list \<Rightarrow> string \<Rightarrow> py_error + image_summary"
where
  "summary_entry memory_env pod_metrics img =
     (let image_data = filter (\<lambda>row. pod_image row = img) pod_metrics;
          max_cpu = series_max (map pod_cpu_cores image_data);
          max_memory = series_max (map pod_memory_bytes image_data);
          recommended_cpu = (if max_cpu > 0 then Some (real_of_int max_cpu / 0.9) else None)
      in if max_memory > 0
         then (case image_data of
                 [] \<Rightarrow> Inl IndexError
               | first # _ \<Rightarrow>
                   bind_err (lookup_allocated_memory
                               (memory_env (pod_namespace first) (pod_name first)))
                     (\<lambda>allocated_memory.
                        Inr \<lparr>sum_image = img, sum_max_cpu = max_cpu,
                             sum_max_memory = max_memory,
                             sum_recommended_cpu = recommended_cpu,
                             sum_memory_utilization =
                               Some (if allocated_memory > 0
                                     then (real_of_int max_memory / real_of_int allocated_memory) * 100
                                     else 0),
                             sum_recommended_memory =
                               Some (if allocated_memory > 0
                                     then real_of_int allocated_memory * 0.9
                                     else real_of_int max_memory / 0.9)\<rparr>))
         else Inr \<lparr>sum_image = img, sum_max_cpu = max_cpu, sum_max_memory = max_memory,
                   sum_recommended_cpu = recommended_cpu, sum_memory_utilization = None,
                   sum_recommended_memory = None\<rparr>)"

fun summary_loop ::
  "(string \<Rightarrow> string \<Rightarrow> outcome) \<Rightarrow> pod_row list \<Rightarrow> string list \<Rightarrow> image_summary list
   \<Rightarrow> py_error + image_summary list"
where
  "summary_loop memory_env pod_metrics [] printed = Inr printed"
| "summary_loop memory_env pod_metrics (img # images) printed =
     (case summary_entry memory_env pod_metrics img of
        Inl e \<Rightarrow> Inl e
      | Inr s \<Rightarrow> summary_loop memory_env pod_metrics images (printed @ [s]))"

definition summarize_metrics ::
  "(string \<Rightarrow> string \<Rightarrow> outcome) \<Rightarrow> pod_row list \<Rightarrow> py_error + image_summary list"
where
  "summarize_metrics memory_env pod_metrics =
     (if pod_metrics \<noteq> []
      then summary_loop memory_env pod_metrics (unique (map pod_image pod_metrics)) []
      else Inr [])"

text \<open>A token of decimal digits: what the statements on quantity tokens range over.\<close>

definition all_digits :: "string \<Rightarrow> bool" where
  "all_digits ds = (ds \<noteq> [] \<and> list_all isdigit ds)"


section \<open>Tokens of digits with a unit suffix\<close>

lemma digit_not_space: "isdigit c \<Longrightarrow> \<not> isspace c"
  by (auto simp: isdigit_def isspace_def Let_def)

lemma strip_digits: "list_all isdigit ds \<Longrightarrow> py_strip ds = ds"
proof (cases ds rule: rev_cases)
  case Nil
  then show ?thesis by (simp add: py_strip_def)
next
  case (snoc ys y)
  assume a: "list_all isdigit ds"
  show ?thesis
  proof (cases ds)
    case Nil
    with snoc show ?thesis by simp
  next
    case (Cons x xs)
    with a have "\<not> isspace x" by (simp add: digit_not_space)
    with Cons have 1: "dropWhile isspace ds = ds" by simp
    from a snoc have "\<not> isspace y" by (simp add: digit_not_space)
    with snoc have 2: "dropWhile isspace (rev ds) = rev ds" by simp
    show ?thesis by (simp add: py_strip_def 1 2)
  qed
qed

lemma int_body_after_digit:
  "list_all isdigit ds \<Longrightarrow>
   int_body ds acc True = Some (foldl (\<lambda>a c. 10 * a + digit_of c) acc ds)"
  by (induction ds arbitrary: acc) auto

lemma int_body_digits:
  "list_all isdigit ds \<Longrightarrow> ds \<noteq> [] \<Longrightarrow>
   int_body ds acc prev = Some (foldl (\<lambda>a c. 10 * a + digit_of c) acc ds)"
  by (cases ds) (auto simp: int_body_after_digit)

lemma py_int_digits: "all_digits ds \<Longrightarrow> py_int ds = Inr (int (digits_value ds))"
proof -
  assume a: "all_digits ds"
  then have ne: "ds \<noteq> []" and d: "isdigit (hd ds)"
    by (cases ds; simp add: all_digits_def)+
  have nm: "hd ds \<noteq> CHR ''-''" "hd ds \<noteq> CHR ''+''"
    using d by (auto simp: isdigit_def)
  from a have s: "py_strip ds = ds"
    by (simp add: strip_digits all_digits_def)
  from a have b: "int_body ds 0 False = Some (digits_value ds)"
    by (simp add: int_body_digits all_digits_def digits_value_def)
  show ?thesis unfolding py_int_def s Let_def using nm b by simp
qed

text \<open>The value of \<open>digits_value\<close> is the positional one.\<close>

lemma foldl_digits_snoc:
  "foldl (\<lambda>a c. 10 * a + digit_of c) acc (ds @ [d]) =
   10 * foldl (\<lambda>a c. 10 * a + digit_of c) acc ds + digit_of d"
  by simp

lemma digits_value_positional:
  "digits_value ds = (\<Sum>i < length ds. digit_of (ds ! i) * 10 ^ (length ds - Suc i))"
proof (induction ds rule: rev_induct)
  case Nil
  then show ?case by (simp add: digits_value_def)
next
  case (snoc d ds)
  have "(\<Sum>i < length ds. digit_of ((ds @ [d]) ! i) * 10 ^ (length (ds @ [d]) - Suc i)) =
        (\<Sum>i < length ds. 10 * (digit_of (ds ! i) * 10 ^ (length ds - Suc i)))"
  proof (rule sum.cong)
    fix i
    assume "i \<in> {..<length ds}"
    then have i: "i < length ds" by simp
    then have "length ds - i = Suc (length ds - Suc i)" by arith
    with i show "digit_of ((ds @ [d]) ! i) * 10 ^ (length (ds @ [d]) - Suc i) =
                 10 * (digit_of (ds ! i) * 10 ^ (length ds - Suc i))"
      by (simp add: nth_append)
  qed simp
  also have "\<dots> = 10 * digits_value ds"
    by (simp add: snoc.IH sum_distrib_left)
  finally show ?case
    by (simp add: digits_value_def)
qed

lemma startswith_refl: "startswith s s"
  by (induction s) auto

lemma py_replace_itself: "sub \<noteq> [] \<Longrightarrow> py_replace sub [] sub = []"
  by (cases sub) (simp_all add: py_replace_def startswith_refl)

lemma py_replace_empty: "sub \<noteq> [] \<Longrightarrow> py_replace sub new [] = []"
  by (simp add: py_replace_def)

lemma py_in_itself: "py_in sub sub"
  by (cases sub) (simp_all add: startswith_refl)

text \<open>A substring that does not start with a digit is not found inside a run of digits.\<close>

lemma py_in_skip_digits:
  "list_all isdigit ds \<Longrightarrow> sub \<noteq> [] \<Longrightarrow> \<not> isdigit (hd sub) \<Longrightarrow>
   py_in sub (ds @ suf) = py_in sub suf"
proof (induction ds)
  case Nil
  then show ?case by simp
next
  case (Cons d ds)
  then have "\<not> startswith sub (d # ds @ suf)" by (cases sub) auto
  with Cons show ?case by simp
qed

lemma replace_skip_digits:
  "list_all isdigit ds \<Longrightarrow> sub \<noteq> [] \<Longrightarrow> \<not> isdigit (hd sub) \<Longrightarrow>
   py_replace sub new (ds @ suf) = ds @ py_replace sub new suf"
proof (induction ds)
  case Nil
  then show ?case by simp
next
  case (Cons d ds)
  then have "\<not> startswith sub (d # ds @ suf)" by (cases sub) auto
  with Cons show ?case by (simp add: py_replace_def)
qed

lemma py_in_digits:
  "list_all isdigit ds \<Longrightarrow> sub \<noteq> [] \<Longrightarrow> \<not> isdigit (hd sub) \<Longrightarrow> \<not> py_in sub ds"
  using py_in_skip_digits [where suf = "[]"] by simp

lemma replace_digits:
  "list_all isdigit ds \<Longrightarrow> sub \<noteq> [] \<Longrightarrow> \<not> isdigit (hd sub) \<Longrightarrow> py_replace sub new ds = ds"
  using replace_skip_digits [where suf = "[]"] by (simp add: py_replace_empty)

lemmas skip_digits = py_replace_itself py_replace_empty py_in_itself
  py_in_skip_digits replace_skip_digits py_in_digits replace_digits

lemma letters_not_digits:
  "\<not> isdigit (CHR ''m'')" "\<not> isdigit (CHR ''%'')" "\<not> isdigit (CHR ''M'')"
  "\<not> isdigit (CHR ''G'')" "\<not> isdigit (CHR ''K'')"
  by (simp_all add: isdigit_def)

lemma mem_suffix_facts:
  assumes d: "list_all isdigit ds"
  shows "py_in ''Mi'' (ds @ ''Mi'')" "py_replace ''Mi'' '''' (ds @ ''Mi'') = ds"
    "\<not> py_in ''Mi'' (ds @ ''Gi'')" "py_in ''Gi'' (ds @ ''Gi'')"
    "py_replace ''Gi'' '''' (ds @ ''Gi'') = ds"
    "\<not> py_in ''Mi'' (ds @ ''Ki'')" "\<not> py_in ''Gi'' (ds @ ''Ki'')" "py_in ''Ki'' (ds @ ''Ki'')"
    "py_replace ''Ki'' '''' (ds @ ''Ki'') = ds"
  using d by (simp_all add: skip_digits letters_not_digits)

text \<open>
  C2. A CPU token of digits followed by \<open>m\<close> parses to the value of the digits (the
  millicores), a token of digits followed by \<open>%\<close> parses to the value of the digits, and a
  token of digits alone parses to the value of the digits, with no scaling by 1000. The
  expression of the node path and the expression of the pod path give the same results.
\<close>

theorem parse_cpu_tokens:
  assumes "all_digits ds"
  shows "node_cpu (ds @ ''m'') = Inr (int (digits_value ds)) \<and>
         node_cpu (ds @ ''%'') = Inr (int (digits_value ds)) \<and>
         node_cpu ds = Inr (int (digits_value ds)) \<and>
         pod_cpu (ds @ ''m'') = Inr (int (digits_value ds)) \<and>
         pod_cpu (ds @ ''%'') = Inr (int (digits_value ds)) \<and>
         pod_cpu ds = Inr (int (digits_value ds))"
proof -
  from assms have d: "list_all isdigit ds" by (simp add: all_digits_def)
  have i: "py_int ds = Inr (int (digits_value ds))" using assms by (rule py_int_digits)
  have m: "py_in ''m'' (ds @ ''m'')"
      "py_replace ''%'' '''' (py_replace ''m'' '''' (ds @ ''m'')) = ds"
    using d by (simp_all add: skip_digits letters_not_digits)
  have p: "\<not> py_in ''m'' (ds @ ''%'')" "py_replace ''%'' '''' (ds @ ''%'') = ds"
    using d by (simp_all add: skip_digits letters_not_digits)
  have b: "\<not> py_in ''m'' ds" "py_replace ''%'' '''' ds = ds"
    using d by (simp_all add: skip_digits letters_not_digits)
  show ?thesis unfolding node_cpu_def pod_cpu_def
    by (simp only: m p b i if_True if_False simp_thms)
qed

theorem parse_cpu_tokens_witness:
  "all_digits ''250'' \<and> node_cpu ''250m'' = Inr 250 \<and> node_cpu ''250%'' = Inr 250 \<and>
   node_cpu ''250'' = Inr 250 \<and> pod_cpu ''250m'' = Inr 250 \<and> pod_cpu ''250%'' = Inr 250 \<and>
   pod_cpu ''250'' = Inr 250"
proof -
  have h: "all_digits ''250''" by (simp add: all_digits_def isdigit_def)
  have v: "digits_value ''250'' = 250" by (simp add: digits_value_def digit_of_def)
  show ?thesis using h parse_cpu_tokens [OF h] by (simp add: v)
qed

text \<open>
  C3. On the pod path a memory token of digits followed by \<open>Mi\<close> parses to the value of
  the digits, followed by \<open>Gi\<close> to the value times 1024, and followed by \<open>Ki\<close> to the value
  divided by 1024, rounded down: mebibytes in all three cases. So \<open>64Mi\<close> gives 64,
  \<open>1Gi\<close> gives 1024 and \<open>2048Ki\<close> gives 2.
\<close>

theorem pod_memory_tokens:
  assumes "all_digits ds"
  shows "pod_memory (ds @ ''Mi'') = Inr (int (digits_value ds)) \<and>
         pod_memory (ds @ ''Gi'') = Inr (int (digits_value ds) * 1024) \<and>
         pod_memory (ds @ ''Ki'') = Inr (int (digits_value ds) div 1024)"
proof -
  from assms have d: "list_all isdigit ds" by (simp add: all_digits_def)
  have i: "py_int ds = Inr (int (digits_value ds))" using assms by (rule py_int_digits)
  show ?thesis unfolding pod_memory_def
    by (simp only: mem_suffix_facts [OF d] i if_True if_False simp_thms bind_err_def sum.case)
qed

theorem pod_memory_tokens_witness:
  "all_digits ''64'' \<and> all_digits ''1'' \<and> all_digits ''2048'' \<and>
   pod_memory ''64Mi'' = Inr 64 \<and> pod_memory ''1Gi'' = Inr 1024 \<and>
   pod_memory ''2048Ki'' = Inr 2"
proof -
  have h: "all_digits ''2048''" "all_digits ''64''" "all_digits ''1''"
    by (simp_all add: all_digits_def isdigit_def)
  have v: "digits_value ''2048'' = 2048" "digits_value ''64'' = 64" "digits_value ''1'' = 1"
    by (simp_all add: digits_value_def digit_of_def)
  show ?thesis
    using h pod_memory_tokens [OF h(1)] pod_memory_tokens [OF h(2)] pod_memory_tokens [OF h(3)]
    by (simp add: v)
qed

text \<open>
  C4, as the code has it. On the node path a memory token of digits followed by \<open>Ki\<close>
  parses to the value of the digits, followed by \<open>Mi\<close> to the value times 1024, and followed
  by \<open>Gi\<close> to the value times 1024 times 1024: kibibytes in all three cases, where the pod
  path gives mebibytes (the value, the value times 1024, the value divided by 1024).
  The claim as written, with \<open>Mi\<close> unchanged and \<open>Gi\<close> times 1024 on the node path, fails
  at \<open>64Mi\<close>, which gives 65536, and at \<open>1Gi\<close>, which gives 1048576.
\<close>

theorem node_memory_tokens:
  assumes "all_digits ds"
  shows "node_memory (ds @ ''Ki'') = Inr (int (digits_value ds)) \<and>
         node_memory (ds @ ''Mi'') = Inr (int (digits_value ds) * 1024) \<and>
         node_memory (ds @ ''Gi'') = Inr (int (digits_value ds) * 1024 * 1024) \<and>
         pod_memory (ds @ ''Ki'') = Inr (int (digits_value ds) div 1024) \<and>
         pod_memory (ds @ ''Mi'') = Inr (int (digits_value ds)) \<and>
         pod_memory (ds @ ''Gi'') = Inr (int (digits_value ds) * 1024)"
proof -
  from assms have d: "list_all isdigit ds" by (simp add: all_digits_def)
  have i: "py_int ds = Inr (int (digits_value ds))" using assms by (rule py_int_digits)
  show ?thesis unfolding node_memory_def pod_memory_def
    by (simp only: mem_suffix_facts [OF d] i if_True if_False simp_thms bind_err_def sum.case)
qed

theorem node_memory_tokens_witness:
  "all_digits ''2'' \<and> node_memory ''2Ki'' = Inr 2 \<and> node_memory ''2Mi'' = Inr 2048 \<and>
   node_memory ''2Gi'' = Inr 2097152 \<and> pod_memory ''2Ki'' = Inr 0 \<and>
   pod_memory ''2Mi'' = Inr 2 \<and> pod_memory ''2Gi'' = Inr 2048"
proof -
  have h: "all_digits ''2''" by (simp add: all_digits_def isdigit_def)
  have v: "digits_value ''2'' = 2" by (simp add: digits_value_def digit_of_def)
  show ?thesis using h node_memory_tokens [OF h] by (simp add: v)
qed

theorem node_memory_counterexample:
  "node_memory ''64Mi'' \<noteq> Inr 64 \<and> node_memory ''1Gi'' \<noteq> Inr 1024"
  by (simp add: node_memory_def bind_err_def py_replace_def py_int_def py_strip_def
      isspace_def isdigit_def digit_of_def)

section \<open>The lookups\<close>

lemma dropWhile_none: "\<forall>c\<in>set s. \<not> P c \<Longrightarrow> dropWhile P s = s"
  by (cases s) auto

lemma strip_no_space: "\<forall>c\<in>set s. \<not> isspace c \<Longrightarrow> py_strip s = s"
  by (simp add: py_strip_def dropWhile_none)

lemma split_ws_no_space:
  "\<forall>c\<in>set cur. \<not> isspace c \<Longrightarrow> t \<in> set (split_ws s cur insp) \<Longrightarrow> \<forall>c\<in>set t. \<not> isspace c"
proof (induction s arbitrary: cur insp)
  case Nil
  then show ?case by simp
next
  case (Cons a s)
  show ?case
  proof (cases "isspace a")
    case False
    with Cons.prems have "t \<in> set (split_ws s (a # cur) False)" by simp
    moreover from False Cons.prems have "\<forall>c\<in>set (a # cur). \<not> isspace c" by simp
    ultimately show ?thesis by (rule Cons.IH [rotated])
  next
    case True
    show ?thesis
    proof (cases insp)
      case True
      with \<open>isspace a\<close> Cons.prems have "t \<in> set (split_ws s cur True)" by simp
      with Cons.prems(1) show ?thesis by (rule Cons.IH)
    next
      case False
      with \<open>isspace a\<close> Cons.prems have "t = rev cur \<or> t \<in> set (split_ws s [] True)" by simp
      then show ?thesis
      proof
        assume "t = rev cur"
        with Cons.prems(1) show ?thesis by simp
      next
        assume "t \<in> set (split_ws s [] True)"
        then show ?thesis using Cons.IH [of "[]" True] by simp
      qed
    qed
  qed
qed

lemma split_ws_token:
  "\<forall>c\<in>set s. \<not> isspace c \<Longrightarrow> split_ws s cur insp = [rev cur @ s]"
  by (induction s arbitrary: cur insp) auto

lemma py_split_empty: "py_split [] = []"
  by (simp add: py_split_def re_split_ws_def)

lemma py_split_token:
  assumes "tok \<in> set (py_split s)"
  shows "tok \<noteq> []" and "py_strip tok = tok" and "py_split tok = [tok]"
proof -
  from assms show ne: "tok \<noteq> []" by (simp add: py_split_def)
  from assms have "tok \<in> set (split_ws s [] False)"
    by (simp add: py_split_def re_split_ws_def)
  then have ns: "\<forall>c\<in>set tok. \<not> isspace c"
    using split_ws_no_space [of "[]" tok s False] by simp
  then show "py_strip tok = tok" by (rule strip_no_space)
  from ns ne show "py_split tok = [tok]"
    by (simp add: py_split_def re_split_ws_def split_ws_token)
qed

text \<open>After a successful query, the if-chain of \<open>lookup_allocated_memory\<close> runs on the first token.\<close>

lemma lookup_allocated_memory_first:
  assumes "returncode p = 0" and "py_split (py_strip (stdout p)) = tok # toks"
  shows "lookup_allocated_memory (Exits p) =
     (if py_in ''Mi'' tok then py_int (py_replace ''Mi'' '''' tok)
      else if py_in ''Gi'' tok
      then bind_err (py_int (py_replace ''Gi'' '''' tok)) (\<lambda>v. Inr (v * 1024))
      else if py_in ''Ki'' tok
      then bind_err (py_int (py_replace ''Ki'' '''' tok)) (\<lambda>v. Inr (v div 1024))
      else py_int tok)"
proof -
  from assms(2) have "py_strip (stdout p) \<noteq> []"
    using py_split_empty by auto
  with assms show ?thesis
    by (simp add: lookup_allocated_memory_def run_checked_def Let_def)
qed

text \<open>
  C6, as the code has it. Both lookups catch \<open>CalledProcessError\<close> and nothing else. When
  the query command exits with a non-zero status, the image lookup returns \<open>unknown\<close> and
  the requested-memory lookup returns 0; whenever the command exits, the image lookup
  returns a string. An exception that the call of the command raises otherwise, such as
  \<open>FileNotFoundError\<close>, leaves either lookup and reaches its caller. The requested-memory
  lookup also returns 0 when the command succeeds with nothing but whitespace on its
  output. Otherwise a first token of digits followed by \<open>Mi\<close> gives the value of the digits,
  followed by \<open>Gi\<close> the value times 1024, and followed by \<open>Ki\<close> the value divided by 1024.
  The claim as written, with \<open>unknown\<close> and 0 on any failure and a lookup that never
  raises, fails when the command cannot be started.
\<close>

theorem lookup_exit_status_defaults:
  "(returncode p \<noteq> 0 \<longrightarrow> lookup_pod_image (Exits p) = Inr ''unknown'') \<and>
   (\<exists>img. lookup_pod_image (Exits p) = Inr img) \<and>
   (e \<noteq> CalledProcessError \<longrightarrow>
      lookup_pod_image (Fails e) = Inl e \<and> lookup_allocated_memory (Fails e) = Inl e) \<and>
   (returncode p \<noteq> 0 \<longrightarrow> lookup_allocated_memory (Exits p) = Inr 0) \<and>
   (returncode p = 0 \<and> py_strip (stdout p) = [] \<longrightarrow> lookup_allocated_memory (Exits p) = Inr 0) \<and>
   (returncode p = 0 \<and> all_digits ds \<and> py_split (py_strip (stdout p)) = tok # toks \<longrightarrow>
      (tok = ds @ ''Mi'' \<longrightarrow>
         lookup_allocated_memory (Exits p) = Inr (int (digits_value ds))) \<and>
      (tok = ds @ ''Gi'' \<longrightarrow>
         lookup_allocated_memory (Exits p) = Inr (int (digits_value ds) * 1024)) \<and>
      (tok = ds @ ''Ki'' \<longrightarrow>
         lookup_allocated_memory (Exits p) = Inr (int (digits_value ds) div 1024)))"
proof -
  have 1: "returncode p \<noteq> 0 \<longrightarrow> lookup_pod_image (Exits p) = Inr ''unknown''"
    by (simp add: lookup_pod_image_def run_checked_def)
  have 2: "\<exists>img. lookup_pod_image (Exits p) = Inr img"
    by (simp add: lookup_pod_image_def run_checked_def)
  have 3: "e \<noteq> CalledProcessError \<longrightarrow>
      lookup_pod_image (Fails e) = Inl e \<and> lookup_allocated_memory (Fails e) = Inl e"
    by (cases e) (simp_all add: lookup_pod_image_def lookup_allocated_memory_def run_checked_def)
  have 4: "returncode p \<noteq> 0 \<longrightarrow> lookup_allocated_memory (Exits p) = Inr 0"
    by (simp add: lookup_allocated_memory_def run_checked_def)
  have 5: "returncode p = 0 \<and> py_strip (stdout p) = [] \<longrightarrow>
      lookup_allocated_memory (Exits p) = Inr 0"
    by (simp add: lookup_allocated_memory_def run_checked_def)
  have 6: "(tok = ds @ ''Mi'' \<longrightarrow>
         lookup_allocated_memory (Exits p) = Inr (int (digits_value ds))) \<and>
      (tok = ds @ ''Gi'' \<longrightarrow>
         lookup_allocated_memory (Exits p) = Inr (int (digits_value ds) * 1024)) \<and>
      (tok = ds @ ''Ki'' \<longrightarrow>
         lookup_allocated_memory (Exits p) = Inr (int (digits_value ds) div 1024))"
    if h: "returncode p = 0" "all_digits ds" "py_split (py_strip (stdout p)) = tok # toks"
  proof -
    from h(2) have d: "list_all isdigit ds" by (simp add: all_digits_def)
    have i: "py_int ds = Inr (int (digits_value ds))" using h(2) by (rule py_int_digits)
    show ?thesis
      unfolding lookup_allocated_memory_first [OF h(1) h(3)]
      by (auto simp only: mem_suffix_facts [OF d] i if_True if_False simp_thms bind_err_def sum.case)
  qed
  from 1 2 3 4 5 6 show ?thesis by blast
qed

lemmas eval_defs = lookup_allocated_memory_def lookup_pod_image_def run_checked_def
  py_split_def re_split_ws_def py_strip_def isspace_def isdigit_def digit_of_def
  py_int_def py_replace_def bind_err_def all_digits_def digits_value_def

theorem lookup_exit_status_defaults_witness:
  "lookup_pod_image (Exits \<lparr>returncode = 1, stdout = ''''\<rparr>) = Inr ''unknown'' \<and>
   lookup_pod_image (Fails FileNotFoundError) = Inl FileNotFoundError \<and>
   lookup_allocated_memory (Fails FileNotFoundError) = Inl FileNotFoundError \<and>
   lookup_allocated_memory (Exits \<lparr>returncode = 1, stdout = ''''\<rparr>) = Inr 0 \<and>
   lookup_allocated_memory (Exits \<lparr>returncode = 0, stdout = '' ''\<rparr>) = Inr 0 \<and>
   lookup_allocated_memory (Exits \<lparr>returncode = 0, stdout = ''128Mi 64Mi''\<rparr>) = Inr 128 \<and>
   lookup_allocated_memory (Exits \<lparr>returncode = 0, stdout = ''2Gi''\<rparr>) = Inr 2048 \<and>
   lookup_allocated_memory (Exits \<lparr>returncode = 0, stdout = ''2048Ki''\<rparr>) = Inr 2"
  using lookup_exit_status_defaults [of "\<lparr>returncode = 1, stdout = ''''\<rparr>" FileNotFoundError]
    lookup_exit_status_defaults [of "\<lparr>returncode = 0, stdout = '' ''\<rparr>"]
    lookup_exit_status_defaults
      [of "\<lparr>returncode = 0, stdout = ''128Mi 64Mi''\<rparr>" _ "''128''" "''128Mi''" "[''64Mi'']"]
    lookup_exit_status_defaults [of "\<lparr>returncode = 0, stdout = ''2Gi''\<rparr>" _ "''2''" "''2Gi''" "[]"]
    lookup_exit_status_defaults
      [of "\<lparr>returncode = 0, stdout = ''2048Ki''\<rparr>" _ "''2048''" "''2048Ki''" "[]"]
  by (simp add: py_split_def re_split_ws_def py_strip_def isspace_def isdigit_def digit_of_def
      all_digits_def digits_value_def)

theorem lookup_uncaught_failure_counterexample:
  "lookup_pod_image (Fails FileNotFoundError) \<noteq> Inr ''unknown'' \<and>
   lookup_pod_image (Fails FileNotFoundError) = Inl FileNotFoundError \<and>
   lookup_allocated_memory (Fails FileNotFoundError) \<noteq> Inr 0 \<and>
   lookup_allocated_memory (Fails FileNotFoundError) = Inl FileNotFoundError \<and>
   lookup_allocated_memory (Exits \<lparr>returncode = 0, stdout = ''1.5Gi''\<rparr>) = Inl ValueError"
  by (simp add: eval_defs)

text \<open>
  C7, as the code has it. After a successful query, the image lookup returns the whole
  output without the surrounding whitespace, all container values with the whitespace
  between them; the requested-memory lookup alone reads its first token only: its result
  is the one for an output that consists of that token. The claim as written fails for an
  output of two images, where the result is not the first image.
\<close>

theorem lookup_first_token:
  assumes "returncode p = 0"
  shows "lookup_pod_image (Exits p) = Inr (py_strip (stdout p)) \<and>
         (\<forall>tok toks. py_split (py_strip (stdout p)) = tok # toks \<longrightarrow>
            lookup_allocated_memory (Exits p) =
            lookup_allocated_memory (Exits (p\<lparr>stdout := tok\<rparr>)))"
proof -
  have a: "lookup_pod_image (Exits p) = Inr (py_strip (stdout p))"
    using assms by (simp add: lookup_pod_image_def run_checked_def)
  have b: "lookup_allocated_memory (Exits p) =
           lookup_allocated_memory (Exits (p\<lparr>stdout := tok\<rparr>))"
    if h: "py_split (py_strip (stdout p)) = tok # toks" for tok toks
  proof -
    from h have "tok \<in> set (py_split (py_strip (stdout p)))" by simp
    from py_split_token [OF this]
    have "py_split (py_strip (stdout (p\<lparr>stdout := tok\<rparr>))) = tok # []" by simp
    moreover have "returncode (p\<lparr>stdout := tok\<rparr>) = 0" using assms by simp
    ultimately show ?thesis
      using lookup_allocated_memory_first [OF assms h]
        lookup_allocated_memory_first [of "p\<lparr>stdout := tok\<rparr>" tok "[]"]
      by simp
  qed
  from a b show ?thesis by blast
qed

theorem lookup_first_token_witness:
  "lookup_pod_image (Exits \<lparr>returncode = 0, stdout = ''nginx:1.0 sidecar:2.0''\<rparr>) =
     Inr ''nginx:1.0 sidecar:2.0'' \<and>
   lookup_allocated_memory (Exits \<lparr>returncode = 0, stdout = ''128Mi 64Mi''\<rparr>) =
   lookup_allocated_memory (Exits \<lparr>returncode = 0, stdout = ''128Mi''\<rparr>) \<and>
   lookup_allocated_memory (Exits \<lparr>returncode = 0, stdout = ''128Mi''\<rparr>) = Inr 128"
proof -
  have s: "py_split (py_strip ''128Mi 64Mi'') = [''128Mi'', ''64Mi'']"
    "py_strip ''nginx:1.0 sidecar:2.0'' = ''nginx:1.0 sidecar:2.0''"
    by (simp_all add: py_split_def re_split_ws_def py_strip_def isspace_def)
  have v: "lookup_allocated_memory (Exits \<lparr>returncode = 0, stdout = ''128Mi''\<rparr>) = Inr 128"
    by (simp add: eval_defs)
  show ?thesis
    using lookup_first_token [of "\<lparr>returncode = 0, stdout = ''nginx:1.0 sidecar:2.0''\<rparr>"]
      lookup_first_token [of "\<lparr>returncode = 0, stdout = ''128Mi 64Mi''\<rparr>"]
    by (simp add: s v)
qed

theorem lookup_image_first_token_counterexample:
  "lookup_pod_image (Exits \<lparr>returncode = 0, stdout = ''nginx:1.0 sidecar:2.0''\<rparr>) \<noteq>
   Inr ''nginx:1.0''"
  by (simp add: lookup_pod_image_def run_checked_def py_strip_def isspace_def)

section \<open>The report, the summary and the sampler\<close>

lemma set_unique: "set (unique xs) = set xs"
  by (induction xs rule: unique.induct) auto

lemma distinct_unique: "distinct (unique xs)"
  by (induction xs rule: unique.induct) (auto simp: set_unique)

lemma series_max_Max: "xs \<noteq> [] \<Longrightarrow> series_max xs = Max (set xs)"
  by (cases xs) (simp_all add: Max.set_eq_fold [symmetric])

lemma bind_err_Inr: "bind_err m f = Inr v \<longleftrightarrow> (\<exists>a. m = Inr a \<and> f a = Inr v)"
  by (cases m) (simp_all add: bind_err_def)

lemma report_loop_all2:
  "report_loop env tbl imgs acc = Inr rep \<longleftrightarrow>
   (\<exists>rs. rep = acc @ rs \<and> list_all2 (\<lambda>img r. report_entry env tbl img = Inr r) imgs rs)"
proof (induction imgs arbitrary: acc)
  case Nil
  then show ?case by auto
next
  case (Cons img imgs)
  show ?case
  proof (cases "report_entry env tbl img")
    case (Inl e)
    then show ?thesis by (auto simp: list_all2_Cons1)
  next
    case (Inr r)
    then show ?thesis by (auto simp: Cons.IH list_all2_Cons1)
  qed
qed

lemma summary_loop_all2:
  "summary_loop env tbl imgs acc = Inr rep \<longleftrightarrow>
   (\<exists>rs. rep = acc @ rs \<and> list_all2 (\<lambda>img r. summary_entry env tbl img = Inr r) imgs rs)"
proof (induction imgs arbitrary: acc)
  case Nil
  then show ?case by auto
next
  case (Cons img imgs)
  show ?case
  proof (cases "summary_entry env tbl img")
    case (Inl e)
    then show ?thesis by (auto simp: list_all2_Cons1)
  next
    case (Inr r)
    then show ?thesis by (auto simp: Cons.IH list_all2_Cons1)
  qed
qed

lemma get_report_all2:
  "get_report env tbl = Inr rep \<longleftrightarrow>
   list_all2 (\<lambda>img r. report_entry env tbl img = Inr r) (unique (map pod_image tbl)) rep"
  by (cases "tbl = []") (auto simp: get_report_def report_loop_all2)

lemma summarize_metrics_all2:
  "summarize_metrics env tbl = Inr rep \<longleftrightarrow>
   list_all2 (\<lambda>img r. summary_entry env tbl img = Inr r) (unique (map pod_image tbl)) rep"
  by (cases "tbl = []") (auto simp: summarize_metrics_def summary_loop_all2)

text \<open>What one entry of the report holds.\<close>

lemma report_entry_fields:
  assumes "report_entry env tbl img = Inr r"
  defines "g \<equiv> filter (\<lambda>row. pod_image row = img) tbl"
  shows "rec_image r = img" and "g \<noteq> []"
    and "avg_cpu r = series_mean (map pod_cpu_cores g)"
    and "max_cpu r = series_max (map pod_cpu_cores g)"
    and "avg_memory r = series_mean (map pod_memory_bytes g)"
    and "max_memory r = series_max (map pod_memory_bytes g)"
    and "requested_cpu r = max_cpu r"
    and "lookup_allocated_memory (env (pod_namespace (hd g)) (pod_name (hd g))) =
         Inr (requested_memory r)"
    and "recommended_cpu r = (if avg_cpu r > 0 then avg_cpu r / 0.9 else 1)"
    and "recommended_memory r = (if max_memory r > 0 then real_of_int (max_memory r) / 0.9 else 1)"
    and "cpu_over_provisioned r =
         (if recommended_cpu r > 0 then real_of_int (max_cpu r) / recommended_cpu r else 0)"
    and "memory_over_provisioned r =
         (if recommended_memory r > 0
          then real_of_int (requested_memory r) / recommended_memory r else 0)"
  using assms(1) unfolding g_def report_entry_def Let_def
  by (auto simp: bind_err_Inr split: list.splits)

lemma report_entry_exists:
  assumes "filter (\<lambda>row. pod_image row = img) tbl = first # rest"
    and "lookup_allocated_memory (env (pod_namespace first) (pod_name first)) = Inr m"
  shows "\<exists>r. report_entry env tbl img = Inr r"
  using assms by (simp add: report_entry_def Let_def bind_err_def)

lemma list_all2_map_eq: "list_all2 (\<lambda>a b. f b = a) xs ys \<Longrightarrow> map f ys = xs"
  by (induction xs ys rule: list_all2_induct) auto

lemma list_all2_exists:
  "\<forall>x\<in>set xs. \<exists>y. P x y \<Longrightarrow> \<exists>ys. list_all2 P xs ys"
proof (induction xs)
  case Nil
  then show ?case by simp
next
  case (Cons x xs)
  then obtain y ys where "P x y" "list_all2 P xs ys" by auto
  then have "list_all2 P (x # xs) (y # ys)" by simp
  then show ?case ..
qed

lemma list_all2_in_set2:
  "list_all2 P xs ys \<Longrightarrow> y \<in> set ys \<Longrightarrow> \<exists>x\<in>set xs. P x y"
  by (induction xs ys rule: list_all2_induct) auto

lemma report_images:
  assumes "get_report env tbl = Inr rep"
  shows "map rec_image rep = unique (map pod_image tbl)"
proof -
  from assms have "list_all2 (\<lambda>img r. report_entry env tbl img = Inr r) (unique (map pod_image tbl)) rep"
    by (simp add: get_report_all2)
  then have "list_all2 (\<lambda>img r. rec_image r = img) (unique (map pod_image tbl)) rep"
    by (rule list_all2_mono) (rule report_entry_fields(1))
  then show ?thesis by (rule list_all2_map_eq)
qed

lemma report_member:
  assumes "get_report env tbl = Inr rep" and "r \<in> set rep"
  shows "report_entry env tbl (rec_image r) = Inr r"
proof -
  from assms(1) have "list_all2 (\<lambda>img r. report_entry env tbl img = Inr r) (unique (map pod_image tbl)) rep"
    by (simp add: get_report_all2)
  from list_all2_in_set2 [OF this assms(2)]
  obtain img where e: "report_entry env tbl img = Inr r" by blast
  from report_entry_fields(1) [OF e] e show ?thesis by simp
qed

lemma get_report_exists:
  assumes "\<forall>row\<in>set tbl. \<exists>m. lookup_allocated_memory (env (pod_namespace row) (pod_name row)) = Inr m"
  shows "\<exists>rep. get_report env tbl = Inr rep"
proof -
  have "\<exists>r. report_entry env tbl img = Inr r" if "img \<in> set (unique (map pod_image tbl))" for img
  proof -
    from that obtain row where row: "row \<in> set tbl" "pod_image row = img"
      by (auto simp: set_unique)
    then have "filter (\<lambda>row. pod_image row = img) tbl \<noteq> []"
      by (auto simp: filter_empty_conv)
    then obtain first rest where f: "filter (\<lambda>row. pod_image row = img) tbl = first # rest"
      by (cases "filter (\<lambda>row. pod_image row = img) tbl") auto
    then have "first \<in> set (filter (\<lambda>row. pod_image row = img) tbl)" by simp
    then have "first \<in> set tbl" by simp
    with assms obtain m where
      "lookup_allocated_memory (env (pod_namespace first) (pod_name first)) = Inr m" by blast
    with f show ?thesis by (rule report_entry_exists)
  qed
  then have "\<exists>rep. list_all2 (\<lambda>img r. report_entry env tbl img = Inr r) (unique (map pod_image tbl)) rep"
    by (intro list_all2_exists) blast
  then show ?thesis by (simp add: get_report_all2)
qed

text \<open>
  C1. For a non-empty pod table the report has one record per distinct image, in the order
  of first occurrence. A record holds the mean and the maximum of the CPU values and of
  the memory values of the rows of its image; the allocated memory is looked up for the
  namespace and the pod of the first of these rows; the recommended CPU is the mean
  divided by 0.9 when the mean is positive and 1 otherwise; the recommended memory is the
  maximum divided by 0.9 when the maximum is positive and 1 otherwise; the CPU ratio is
  the maximum CPU divided by the recommended CPU, the memory ratio is the allocated memory
  divided by the recommended memory, each when the recommendation is positive and 0
  otherwise. The report exists whenever the lookups of the rows return a number.
\<close>

theorem report_formulas:
  assumes "pod_metrics \<noteq> []"
  shows "((\<forall>row\<in>set pod_metrics. \<exists>m.
            lookup_allocated_memory (memory_env (pod_namespace row) (pod_name row)) = Inr m) \<longrightarrow>
          (\<exists>report. get_report memory_env pod_metrics = Inr report)) \<and>
         (\<forall>report. get_report memory_env pod_metrics = Inr report \<longrightarrow>
            map rec_image report = unique (map pod_image pod_metrics) \<and>
            distinct (map rec_image report) \<and>
            set (map rec_image report) = pod_image ` set pod_metrics \<and>
            (\<forall>r\<in>set report.
               let g = filter (\<lambda>row. pod_image row = rec_image r) pod_metrics
               in g \<noteq> [] \<and>
                  avg_cpu r = real_of_int (sum_list (map pod_cpu_cores g)) / real (length g) \<and>
                  max_cpu r = Max (pod_cpu_cores ` set g) \<and>
                  avg_memory r = real_of_int (sum_list (map pod_memory_bytes g)) / real (length g) \<and>
                  max_memory r = Max (pod_memory_bytes ` set g) \<and>
                  lookup_allocated_memory
                    (memory_env (pod_namespace (hd g)) (pod_name (hd g))) =
                    Inr (requested_memory r) \<and>
                  recommended_cpu r = (if avg_cpu r > 0 then avg_cpu r / 0.9 else 1) \<and>
                  recommended_memory r =
                    (if max_memory r > 0 then real_of_int (max_memory r) / 0.9 else 1) \<and>
                  cpu_over_provisioned r =
                    (if recommended_cpu r > 0 then real_of_int (max_cpu r) / recommended_cpu r
                     else 0) \<and>
                  memory_over_provisioned r =
                    (if recommended_memory r > 0
                     then real_of_int (requested_memory r) / recommended_memory r else 0)))"
proof (intro conjI allI impI)
  assume "\<forall>row\<in>set pod_metrics. \<exists>m.
            lookup_allocated_memory (memory_env (pod_namespace row) (pod_name row)) = Inr m"
  then show "\<exists>report. get_report memory_env pod_metrics = Inr report"
    by (rule get_report_exists)
next
  fix report
  assume r: "get_report memory_env pod_metrics = Inr report"
  then show "map rec_image report = unique (map pod_image pod_metrics)"
    by (rule report_images)
  then show "distinct (map rec_image report)"
    by (simp add: distinct_unique)
  from report_images [OF r] have "set (map rec_image report) = set (unique (map pod_image pod_metrics))"
    by simp
  then show "set (map rec_image report) = pod_image ` set pod_metrics"
    by (simp add: set_unique)
  show "\<forall>r\<in>set report.
               let g = filter (\<lambda>row. pod_image row = rec_image r) pod_metrics
               in g \<noteq> [] \<and>
                  avg_cpu r = real_of_int (sum_list (map pod_cpu_cores g)) / real (length g) \<and>
                  max_cpu r = Max (pod_cpu_cores ` set g) \<and>
                  avg_memory r = real_of_int (sum_list (map pod_memory_bytes g)) / real (length g) \<and>
                  max_memory r = Max (pod_memory_bytes ` set g) \<and>
                  lookup_allocated_memory
                    (memory_env (pod_namespace (hd g)) (pod_name (hd g))) =
                    Inr (requested_memory r) \<and>
                  recommended_cpu r = (if avg_cpu r > 0 then avg_cpu r / 0.9 else 1) \<and>
                  recommended_memory r =
                    (if max_memory r > 0 then real_of_int (max_memory r) / 0.9 else 1) \<and>
                  cpu_over_provisioned r =
                    (if recommended_cpu r > 0 then real_of_int (max_cpu r) / recommended_cpu r
                     else 0) \<and>
                  memory_over_provisioned r =
                    (if recommended_memory r > 0
                     then real_of_int (requested_memory r) / recommended_memory r else 0)"
  proof
    fix x
    assume "x \<in> set report"
    with r have e: "report_entry memory_env pod_metrics (rec_image x) = Inr x"
      by (rule report_member)
    note f = report_entry_fields [OF e]
    from f(2) have m: "series_max (map pod_cpu_cores (filter (\<lambda>row. pod_image row = rec_image x) pod_metrics)) =
        Max (pod_cpu_cores ` set (filter (\<lambda>row. pod_image row = rec_image x) pod_metrics))"
      "series_max (map pod_memory_bytes (filter (\<lambda>row. pod_image row = rec_image x) pod_metrics)) =
        Max (pod_memory_bytes ` set (filter (\<lambda>row. pod_image row = rec_image x) pod_metrics))"
      by (simp_all add: series_max_Max)
    show "let g = filter (\<lambda>row. pod_image row = rec_image x) pod_metrics
               in g \<noteq> [] \<and>
                  avg_cpu x = real_of_int (sum_list (map pod_cpu_cores g)) / real (length g) \<and>
                  max_cpu x = Max (pod_cpu_cores ` set g) \<and>
                  avg_memory x = real_of_int (sum_list (map pod_memory_bytes g)) / real (length g) \<and>
                  max_memory x = Max (pod_memory_bytes ` set g) \<and>
                  lookup_allocated_memory
                    (memory_env (pod_namespace (hd g)) (pod_name (hd g))) =
                    Inr (requested_memory x) \<and>
                  recommended_cpu x = (if avg_cpu x > 0 then avg_cpu x / 0.9 else 1) \<and>
                  recommended_memory x =
                    (if max_memory x > 0 then real_of_int (max_memory x) / 0.9 else 1) \<and>
                  cpu_over_provisioned x =
                    (if recommended_cpu x > 0 then real_of_int (max_cpu x) / recommended_cpu x
                     else 0) \<and>
                  memory_over_provisioned x =
                    (if recommended_memory x > 0
                     then real_of_int (requested_memory x) / recommended_memory x else 0)"
      unfolding Let_def
      using f(2) f(3) [unfolded series_mean_def] f(4) [unfolded m] f(5) [unfolded series_mean_def]
        f(6) [unfolded m] f(8) f(9) f(10) f(11) f(12)
      by (intro conjI) simp_all
  qed
qed

lemma list_all2_map_eq2: "list_all2 (\<lambda>a b. f b = g a) xs ys \<Longrightarrow> map f ys = map g xs"
  by (induction xs ys rule: list_all2_induct) auto

lemma report_requested_cpu:
  assumes "get_report env tbl = Inr rep"
  shows "map requested_cpu rep =
         map (\<lambda>img. series_max (map pod_cpu_cores (filter (\<lambda>row. pod_image row = img) tbl)))
           (unique (map pod_image tbl))"
proof -
  from assms have "list_all2 (\<lambda>img r. report_entry env tbl img = Inr r) (unique (map pod_image tbl)) rep"
    by (simp add: get_report_all2)
  then have "list_all2 (\<lambda>img r. requested_cpu r =
      series_max (map pod_cpu_cores (filter (\<lambda>row. pod_image row = img) tbl)))
      (unique (map pod_image tbl)) rep"
    by (rule list_all2_mono) (simp add: report_entry_fields(4,7))
  then show ?thesis by (rule list_all2_map_eq2)
qed

text \<open>
  C10. In every record of the report the requested CPU is the maximum of the CPU values
  of the rows of the image. It is the same whatever the cluster answers to the lookups:
  only the requested memory is the result of a lookup.
\<close>

theorem requested_cpu_is_max_cpu:
  assumes "get_report memory_env pod_metrics = Inr report"
  shows "(\<forall>r\<in>set report.
            let g = filter (\<lambda>row. pod_image row = rec_image r) pod_metrics
            in requested_cpu r = max_cpu r \<and>
               requested_cpu r = Max (pod_cpu_cores ` set g) \<and>
               lookup_allocated_memory (memory_env (pod_namespace (hd g)) (pod_name (hd g))) =
                 Inr (requested_memory r)) \<and>
         (\<forall>other_env report'. get_report other_env pod_metrics = Inr report' \<longrightarrow>
            map requested_cpu report' = map requested_cpu report)"
proof (intro conjI ballI allI impI)
  fix r
  assume "r \<in> set report"
  with assms have e: "report_entry memory_env pod_metrics (rec_image r) = Inr r"
    by (rule report_member)
  note f = report_entry_fields [OF e]
  from f(2) have "series_max (map pod_cpu_cores (filter (\<lambda>row. pod_image row = rec_image r) pod_metrics)) =
        Max (pod_cpu_cores ` set (filter (\<lambda>row. pod_image row = rec_image r) pod_metrics))"
    by (simp add: series_max_Max)
  with f(4) f(7) f(8)
  show "let g = filter (\<lambda>row. pod_image row = rec_image r) pod_metrics
            in requested_cpu r = max_cpu r \<and>
               requested_cpu r = Max (pod_cpu_cores ` set g) \<and>
               lookup_allocated_memory (memory_env (pod_namespace (hd g)) (pod_name (hd g))) =
                 Inr (requested_memory r)"
    by (simp add: Let_def)
next
  fix other_env report'
  assume "get_report other_env pod_metrics = Inr report'"
  then show "map requested_cpu report' = map requested_cpu report"
    by (simp add: report_requested_cpu [OF assms] report_requested_cpu)
qed

lemma summary_entry_fields:
  assumes "report_entry env tbl img = Inr r" and "summary_entry env tbl img = Inr s"
  shows "sum_image s = rec_image r"
    and "sum_recommended_cpu s =
         (if max_cpu r > 0 then Some (real_of_int (max_cpu r) / 0.9) else None)"
    and "sum_recommended_memory s =
         (if max_memory r > 0
          then Some (if requested_memory r > 0 then real_of_int (requested_memory r) * 0.9
                     else real_of_int (max_memory r) / 0.9)
          else None)"
  using assms unfolding report_entry_def summary_entry_def Let_def
  by (auto simp: bind_err_Inr split: list.splits if_splits)

lemma int_not_nine_tenths: "real_of_int m / 0.9 \<noteq> 1"
proof
  assume "real_of_int m / 0.9 = 1"
  then have "real_of_int (10 * m) = real_of_int 9" by simp
  then have "10 * m = 9" by (simp only: of_int_eq_iff)
  then show False by presburger
qed

text \<open>
  C9, as the code has it. The shutdown summary and the report list the same images. For an
  image with a positive maximum of CPU the summary recommends the maximum divided by 0.9,
  which is the recommendation of the report (the mean divided by 0.9) exactly when the
  mean equals the maximum. For an image with a positive maximum of memory for which the
  lookup gives no positive allocated memory, the summary recommends what the report
  recommends, the maximum divided by 0.9. The claim as written, that the two
  recommendations are equal for every image with positive usage, fails for CPU values
  100, 200, 300 with memory maximum 500 and allocated memory 600.
\<close>

theorem summary_recommendation:
  assumes "get_report memory_env pod_metrics = Inr report"
    and "summarize_metrics memory_env pod_metrics = Inr summary"
  shows "map sum_image summary = map rec_image report \<and>
         (\<forall>i < length report.
            let r = report ! i; s = summary ! i
            in (max_cpu r > 0 \<longrightarrow>
                  sum_recommended_cpu s = Some (real_of_int (max_cpu r) / 0.9) \<and>
                  (sum_recommended_cpu s = Some (recommended_cpu r) \<longleftrightarrow>
                   avg_cpu r = real_of_int (max_cpu r))) \<and>
               (max_memory r > 0 \<and> \<not> requested_memory r > 0 \<longrightarrow>
                  sum_recommended_memory s = Some (recommended_memory r)))"
proof -
  let ?imgs = "unique (map pod_image pod_metrics)"
  from assms(1) have R: "list_all2 (\<lambda>img r. report_entry memory_env pod_metrics img = Inr r) ?imgs report"
    by (simp add: get_report_all2)
  from assms(2) have S: "list_all2 (\<lambda>img s. summary_entry memory_env pod_metrics img = Inr s) ?imgs summary"
    by (simp add: summarize_metrics_all2)
  have len: "length report = length ?imgs" "length summary = length ?imgs"
    using list_all2_lengthD [OF R] list_all2_lengthD [OF S] by simp_all
  have entry: "report_entry memory_env pod_metrics (?imgs ! i) = Inr (report ! i)"
      "summary_entry memory_env pod_metrics (?imgs ! i) = Inr (summary ! i)"
    if "i < length report" for i
    using that R S len by (simp_all add: list_all2_conv_all_nth)
  have "map sum_image summary = map rec_image report"
  proof (rule nth_equalityI)
    show "length (map sum_image summary) = length (map rec_image report)" using len by simp
  next
    fix i
    assume "i < length (map sum_image summary)"
    then have i: "i < length report" using len by simp
    from summary_entry_fields(1) [OF entry [OF i]] i len
    show "map sum_image summary ! i = map rec_image report ! i" by simp
  qed
  moreover have "let r = report ! i; s = summary ! i
            in (max_cpu r > 0 \<longrightarrow>
                  sum_recommended_cpu s = Some (real_of_int (max_cpu r) / 0.9) \<and>
                  (sum_recommended_cpu s = Some (recommended_cpu r) \<longleftrightarrow>
                   avg_cpu r = real_of_int (max_cpu r))) \<and>
               (max_memory r > 0 \<and> \<not> requested_memory r > 0 \<longrightarrow>
                  sum_recommended_memory s = Some (recommended_memory r))"
    if i: "i < length report" for i
  proof -
    note e = entry [OF i]
    note f = report_entry_fields [OF e(1)]
    note g = summary_entry_fields [OF e]
    have c: "sum_recommended_cpu (summary ! i) = Some (real_of_int (max_cpu (report ! i)) / 0.9)"
      if "max_cpu (report ! i) > 0"
      using that g(2) by simp
    have q: "(real_of_int (max_cpu (report ! i)) / 0.9 = recommended_cpu (report ! i)) \<longleftrightarrow>
             avg_cpu (report ! i) = real_of_int (max_cpu (report ! i))"
      if m: "max_cpu (report ! i) > 0"
    proof (cases "avg_cpu (report ! i) > 0")
      case True
      with f(9) show ?thesis by auto
    next
      case False
      with f(9) have "recommended_cpu (report ! i) = 1" by simp
      moreover from False m have "avg_cpu (report ! i) \<noteq> real_of_int (max_cpu (report ! i))"
        by auto
      ultimately show ?thesis using int_not_nine_tenths [of "max_cpu (report ! i)"] by simp
    qed
    have mem: "sum_recommended_memory (summary ! i) = Some (recommended_memory (report ! i))"
      if "max_memory (report ! i) > 0" and "\<not> requested_memory (report ! i) > 0"
      using that g(3) f(10) by simp
    show ?thesis unfolding Let_def using c q mem by auto
  qed
  ultimately show ?thesis by blast
qed

lemmas report_eval = get_report_def report_entry_def summarize_metrics_def summary_entry_def
  series_mean_def eval_defs Let_def

lemma example_report:
  "get_report (\<lambda>namespace pod. Exits \<lparr>returncode = 0, stdout = ''600Mi''\<rparr>)
     [\<lparr>pod_timestamp = 1, pod_name = ''web-1'', pod_namespace = ''default'',
       pod_cpu_cores = 100, pod_memory_bytes = 400, pod_image = ''nginx:1.0''\<rparr>,
      \<lparr>pod_timestamp = 2, pod_name = ''web-1'', pod_namespace = ''default'',
       pod_cpu_cores = 200, pod_memory_bytes = 500, pod_image = ''nginx:1.0''\<rparr>,
      \<lparr>pod_timestamp = 3, pod_name = ''web-2'', pod_namespace = ''default'',
       pod_cpu_cores = 300, pod_memory_bytes = 450, pod_image = ''nginx:1.0''\<rparr>] =
   Inr [\<lparr>rec_image = ''nginx:1.0'', avg_cpu = 200, max_cpu = 300, avg_memory = 450,
         max_memory = 500, requested_cpu = 300, requested_memory = 600,
         recommended_cpu = 200 / 0.9, recommended_memory = 500 / 0.9,
         cpu_over_provisioned = 300 / (200 / 0.9),
         memory_over_provisioned = 600 / (500 / 0.9)\<rparr>]"
  by (simp add: report_eval)

lemma example_summary:
  "summarize_metrics (\<lambda>namespace pod. Exits \<lparr>returncode = 0, stdout = ''600Mi''\<rparr>)
     [\<lparr>pod_timestamp = 1, pod_name = ''web-1'', pod_namespace = ''default'',
       pod_cpu_cores = 100, pod_memory_bytes = 400, pod_image = ''nginx:1.0''\<rparr>,
      \<lparr>pod_timestamp = 2, pod_name = ''web-1'', pod_namespace = ''default'',
       pod_cpu_cores = 200, pod_memory_bytes = 500, pod_image = ''nginx:1.0''\<rparr>,
      \<lparr>pod_timestamp = 3, pod_name = ''web-2'', pod_namespace = ''default'',
       pod_cpu_cores = 300, pod_memory_bytes = 450, pod_image = ''nginx:1.0''\<rparr>] =
   Inr [\<lparr>sum_image = ''nginx:1.0'', sum_max_cpu = 300, sum_max_memory = 500,
         sum_recommended_cpu = Some (300 / 0.9),
         sum_memory_utilization = Some (500 / 600 * 100),
         sum_recommended_memory = Some (600 * 0.9)\<rparr>]"
  by (simp add: report_eval)

lemma example_report_failed_lookup:
  "get_report (\<lambda>namespace pod. Exits \<lparr>returncode = 1, stdout = ''''\<rparr>)
     [\<lparr>pod_timestamp = 1, pod_name = ''web-1'', pod_namespace = ''default'',
       pod_cpu_cores = 100, pod_memory_bytes = 400, pod_image = ''nginx:1.0''\<rparr>,
      \<lparr>pod_timestamp = 2, pod_name = ''web-1'', pod_namespace = ''default'',
       pod_cpu_cores = 200, pod_memory_bytes = 500, pod_image = ''nginx:1.0''\<rparr>,
      \<lparr>pod_timestamp = 3, pod_name = ''web-2'', pod_namespace = ''default'',
       pod_cpu_cores = 300, pod_memory_bytes = 450, pod_image = ''nginx:1.0''\<rparr>] =
   Inr [\<lparr>rec_image = ''nginx:1.0'', avg_cpu = 200, max_cpu = 300, avg_memory = 450,
         max_memory = 500, requested_cpu = 300, requested_memory = 0,
         recommended_cpu = 200 / 0.9, recommended_memory = 500 / 0.9,
         cpu_over_provisioned = 300 / (200 / 0.9),
         memory_over_provisioned = 0\<rparr>]"
  by (simp add: report_eval)

lemma example_summary_failed_lookup:
  "summarize_metrics (\<lambda>namespace pod. Exits \<lparr>returncode = 1, stdout = ''''\<rparr>)
     [\<lparr>pod_timestamp = 1, pod_name = ''web-1'', pod_namespace = ''default'',
       pod_cpu_cores = 100, pod_memory_bytes = 400, pod_image = ''nginx:1.0''\<rparr>,
      \<lparr>pod_timestamp = 2, pod_name = ''web-1'', pod_namespace = ''default'',
       pod_cpu_cores = 200, pod_memory_bytes = 500, pod_image = ''nginx:1.0''\<rparr>,
      \<lparr>pod_timestamp = 3, pod_name = ''web-2'', pod_namespace = ''default'',
       pod_cpu_cores = 300, pod_memory_bytes = 450, pod_image = ''nginx:1.0''\<rparr>] =
   Inr [\<lparr>sum_image = ''nginx:1.0'', sum_max_cpu = 300, sum_max_memory = 500,
         sum_recommended_cpu = Some (300 / 0.9),
         sum_memory_utilization = Some 0,
         sum_recommended_memory = Some (500 / 0.9)\<rparr>]"
  by (simp add: report_eval)

theorem report_formulas_witness:
  "let T = [\<lparr>pod_timestamp = 1, pod_name = ''web-1'', pod_namespace = ''default'',
             pod_cpu_cores = 100, pod_memory_bytes = 400, pod_image = ''nginx:1.0''\<rparr>,
            \<lparr>pod_timestamp = 2, pod_name = ''web-1'', pod_namespace = ''default'',
             pod_cpu_cores = 200, pod_memory_bytes = 500, pod_image = ''nginx:1.0''\<rparr>,
            \<lparr>pod_timestamp = 3, pod_name = ''web-2'', pod_namespace = ''default'',
             pod_cpu_cores = 300, pod_memory_bytes = 450, pod_image = ''nginx:1.0''\<rparr>];
       E = (\<lambda>namespace pod. Exits \<lparr>returncode = 0, stdout = ''600Mi''\<rparr>)
   in T \<noteq> [] \<and>
      get_report E T =
        Inr [\<lparr>rec_image = ''nginx:1.0'', avg_cpu = 200, max_cpu = 300, avg_memory = 450,
              max_memory = 500, requested_cpu = 300, requested_memory = 600,
              recommended_cpu = 200 / 0.9, recommended_memory = 500 / 0.9,
              cpu_over_provisioned = 300 / (200 / 0.9),
              memory_over_provisioned = 600 / (500 / 0.9)\<rparr>] \<and>
      (300 / (200 / 0.9) :: real) = 1.35 \<and> (600 / (500 / 0.9) :: real) = 1.08"
proof -
  let ?T = "[\<lparr>pod_timestamp = 1, pod_name = ''web-1'', pod_namespace = ''default'',
       pod_cpu_cores = 100, pod_memory_bytes = 400, pod_image = ''nginx:1.0''\<rparr>,
      \<lparr>pod_timestamp = 2, pod_name = ''web-1'', pod_namespace = ''default'',
       pod_cpu_cores = 200, pod_memory_bytes = 500, pod_image = ''nginx:1.0''\<rparr>,
      \<lparr>pod_timestamp = 3, pod_name = ''web-2'', pod_namespace = ''default'',
       pod_cpu_cores = 300, pod_memory_bytes = 450, pod_image = ''nginx:1.0''\<rparr>]"
  let ?E = "\<lambda>namespace pod :: string. Exits \<lparr>returncode = 0, stdout = ''600Mi''\<rparr>"
  have ne: "?T \<noteq> []" by simp
  have ok: "\<forall>row\<in>set ?T. \<exists>m.
      lookup_allocated_memory (?E (pod_namespace row) (pod_name row)) = Inr m"
    by (simp add: eval_defs)
  from report_formulas [OF ne, of ?E] ok obtain report where
    r: "get_report ?E ?T = Inr report" by blast
  with report_formulas [OF ne, of ?E]
  have "map rec_image report = unique (map pod_image ?T)" by blast
  with r show ?thesis unfolding Let_def by (simp add: example_report)
qed

theorem summary_recommendation_witness:
  "let T = [\<lparr>pod_timestamp = 1, pod_name = ''web-1'', pod_namespace = ''default'',
             pod_cpu_cores = 100, pod_memory_bytes = 400, pod_image = ''nginx:1.0''\<rparr>,
            \<lparr>pod_timestamp = 2, pod_name = ''web-1'', pod_namespace = ''default'',
             pod_cpu_cores = 200, pod_memory_bytes = 500, pod_image = ''nginx:1.0''\<rparr>,
            \<lparr>pod_timestamp = 3, pod_name = ''web-2'', pod_namespace = ''default'',
             pod_cpu_cores = 300, pod_memory_bytes = 450, pod_image = ''nginx:1.0''\<rparr>];
       E = (\<lambda>namespace pod. Exits \<lparr>returncode = 1, stdout = ''''\<rparr>)
   in map_sum id (map max_cpu) (get_report E T) = Inr [300] \<and>
      map_sum id (map avg_cpu) (get_report E T) = Inr [200] \<and>
      map_sum id (map max_memory) (get_report E T) = Inr [500] \<and>
      map_sum id (map requested_memory) (get_report E T) = Inr [0] \<and>
      map_sum id (map recommended_memory) (get_report E T) = Inr [500 / 0.9] \<and>
      map_sum id (map sum_recommended_cpu) (summarize_metrics E T) = Inr [Some (300 / 0.9)] \<and>
      map_sum id (map sum_recommended_memory) (summarize_metrics E T) = Inr [Some (500 / 0.9)]"
  using summary_recommendation [OF example_report_failed_lookup example_summary_failed_lookup]
  by (simp add: example_report_failed_lookup example_summary_failed_lookup)

theorem summary_formula_counterexample:
  "let T = [\<lparr>pod_timestamp = 1, pod_name = ''web-1'', pod_namespace = ''default'',
             pod_cpu_cores = 100, pod_memory_bytes = 400, pod_image = ''nginx:1.0''\<rparr>,
            \<lparr>pod_timestamp = 2, pod_name = ''web-1'', pod_namespace = ''default'',
             pod_cpu_cores = 200, pod_memory_bytes = 500, pod_image = ''nginx:1.0''\<rparr>,
            \<lparr>pod_timestamp = 3, pod_name = ''web-2'', pod_namespace = ''default'',
             pod_cpu_cores = 300, pod_memory_bytes = 450, pod_image = ''nginx:1.0''\<rparr>];
       E = (\<lambda>namespace pod. Exits \<lparr>returncode = 0, stdout = ''600Mi''\<rparr>)
   in map_sum id (map max_cpu) (get_report E T) = Inr [300] \<and>
      map_sum id (map max_memory) (get_report E T) = Inr [500] \<and>
      map_sum id (map (\<lambda>r. Some (recommended_cpu r))) (get_report E T) \<noteq>
      map_sum id (map sum_recommended_cpu) (summarize_metrics E T) \<and>
      map_sum id (map (\<lambda>r. Some (recommended_memory r))) (get_report E T) \<noteq>
      map_sum id (map sum_recommended_memory) (summarize_metrics E T) \<and>
      map_sum id (map recommended_cpu) (get_report E T) = Inr [200 / 0.9] \<and>
      map_sum id (map sum_recommended_cpu) (summarize_metrics E T) = Inr [Some (300 / 0.9)] \<and>
      map_sum id (map recommended_memory) (get_report E T) = Inr [500 / 0.9] \<and>
      map_sum id (map sum_recommended_memory) (summarize_metrics E T) = Inr [Some (600 * 0.9)]"
  by (simp add: example_report example_summary)

theorem requested_cpu_is_max_cpu_witness:
  "let T = [\<lparr>pod_timestamp = 1, pod_name = ''web-1'', pod_namespace = ''default'',
             pod_cpu_cores = 100, pod_memory_bytes = 400, pod_image = ''nginx:1.0''\<rparr>,
            \<lparr>pod_timestamp = 2, pod_name = ''web-1'', pod_namespace = ''default'',
             pod_cpu_cores = 200, pod_memory_bytes = 500, pod_image = ''nginx:1.0''\<rparr>,
            \<lparr>pod_timestamp = 3, pod_name = ''web-2'', pod_namespace = ''default'',
             pod_cpu_cores = 300, pod_memory_bytes = 450, pod_image = ''nginx:1.0''\<rparr>]
   in map_sum id (map requested_cpu)
        (get_report (\<lambda>namespace pod. Exits \<lparr>returncode = 0, stdout = ''600Mi''\<rparr>) T) = Inr [300] \<and>
      map_sum id (map max_cpu)
        (get_report (\<lambda>namespace pod. Exits \<lparr>returncode = 0, stdout = ''600Mi''\<rparr>) T) = Inr [300] \<and>
      map_sum id (map requested_memory)
        (get_report (\<lambda>namespace pod. Exits \<lparr>returncode = 0, stdout = ''600Mi''\<rparr>) T) = Inr [600] \<and>
      map_sum id (map requested_cpu)
        (get_report (\<lambda>namespace pod. Exits \<lparr>returncode = 1, stdout = ''''\<rparr>) T) = Inr [300] \<and>
      map_sum id (map requested_memory)
        (get_report (\<lambda>namespace pod. Exits \<lparr>returncode = 1, stdout = ''''\<rparr>) T) = Inr [0]"
  using requested_cpu_is_max_cpu [OF example_report]
  by (simp add: example_report example_report_failed_lookup)

lemmas sampler_defs = parse_node_metrics_def split_lines_def py_strip_def isspace_def
  isdigit_def digit_of_def re_split_ws_def node_cpu_def node_memory_def pod_cpu_def
  pod_memory_def py_int_def py_replace_def bind_err_def Let_def parse_pod_metrics_def
  process_pod_metrics_def lookup_pod_image_def run_checked_def List.map_filter_def
  collect_cycle_def collect_node_metrics_def collect_pod_metrics_def

text \<open>
  What a cycle raises comes from the call of one of the two commands or from the parser of
  the node text; two commands that exit with a non-zero status leave the store as it is.
\<close>

lemma collect_cycle_raises:
  assumes "collect_cycle c st = Inl e"
  shows "node_top c = Fails e \<or> pod_top c = Fails e \<or>
         (\<exists>p. node_top c = Exits p \<and> returncode p = 0 \<and> stdout p \<noteq> [] \<and>
              parse_node_metrics (stdout p) (cycle_timestamp c) (node_metrics_df st) = Inl e)"
  using assms
  by (auto simp: collect_cycle_def collect_node_metrics_def collect_pod_metrics_def
      run_checked_def bind_err_def split: if_splits sum.splits outcome.splits py_error.splits)

lemma collect_cycle_failed_fetches:
  assumes "node_top c = Exits p" and "returncode p \<noteq> 0"
    and "pod_top c = Exits q" and "returncode q \<noteq> 0"
  shows "collect_cycle c st = Inr st"
  using assms
  by (simp add: collect_cycle_def collect_node_metrics_def collect_pod_metrics_def
      run_checked_def bind_err_def)

text \<open>
  C5 at a node text whose first data line has the CPU token \<open>abc\<close>: \<open>parse_node_metrics\<close>
  raises \<open>ValueError\<close>, so that no row is appended, not even the one of the well-formed
  second line, which is appended when it stands alone. On the pod path the line with the
  same token is dropped and the other line is appended.
\<close>

theorem malformed_node_token_raises:
  "parse_node_metrics
     (''NAME CPU(cores) CPU% MEMORY(bytes) MEMORY%'' @ [CHR 0x0A] @
      ''node1 abc 10% 100Mi 5%'' @ [CHR 0x0A] @
      ''node2 250m 12% 2048Mi 26%'') 1 [] = Inl ValueError \<and>
   parse_node_metrics
     (''NAME CPU(cores) CPU% MEMORY(bytes) MEMORY%'' @ [CHR 0x0A] @
      ''node2 250m 12% 2048Mi 26%'') 1 [] =
     Inr [\<lparr>node_timestamp = 1, node_name = ''node2'', node_cpu_cores = 250,
           node_memory_bytes = 12\<rparr>] \<and>
   parse_pod_metrics (\<lambda>namespace pod. Exits \<lparr>returncode = 0, stdout = ''nginx:1.0''\<rparr>)
     (''NAMESPACE NAME CPU(cores) MEMORY(bytes) AGE'' @ [CHR 0x0A] @
      ''default web abc 64Mi 5d'' @ [CHR 0x0A] @
      ''default db 250m 2048Ki 5d'') 1 [] =
     [\<lparr>pod_timestamp = 1, pod_name = ''db'', pod_namespace = ''default'',
       pod_cpu_cores = 250, pod_memory_bytes = 2, pod_image = ''nginx:1.0''\<rparr>]"
  by (simp add: sampler_defs)

text \<open>
  C8 at two cycles: when the node text of the first cycle has the CPU token \<open>abc\<close>, the
  \<open>ValueError\<close> leaves the loop and the second cycle is not run. When instead both
  commands of the first cycle fail, the loop goes on and the second cycle appends its row.
\<close>

theorem sampling_loop_ends_on_malformed_node_token:
  "collect_metrics
     [\<lparr>cycle_timestamp = 1,
       node_top = Exits \<lparr>returncode = 0,
                   stdout = ''NAME CPU(cores) CPU% MEMORY(bytes) MEMORY%'' @ [CHR 0x0A] @
                            ''node1 abc 10% 100Mi 5%''\<rparr>,
       pod_top = Exits \<lparr>returncode = 1, stdout = ''''\<rparr>,
       image_query = (\<lambda>namespace pod. Exits \<lparr>returncode = 1, stdout = ''''\<rparr>)\<rparr>,
      \<lparr>cycle_timestamp = 2,
       node_top = Exits \<lparr>returncode = 0,
                   stdout = ''NAME CPU(cores) CPU% MEMORY(bytes) MEMORY%'' @ [CHR 0x0A] @
                            ''node1 250m 10% 100Mi 5%''\<rparr>,
       pod_top = Exits \<lparr>returncode = 1, stdout = ''''\<rparr>,
       image_query = (\<lambda>namespace pod. Exits \<lparr>returncode = 1, stdout = ''''\<rparr>)\<rparr>]
     \<lparr>node_metrics_df = [], pod_metrics_df = []\<rparr> = Inl ValueError \<and>
   collect_metrics
     [\<lparr>cycle_timestamp = 1,
       node_top = Exits \<lparr>returncode = 1, stdout = ''''\<rparr>,
       pod_top = Exits \<lparr>returncode = 1, stdout = ''''\<rparr>,
       image_query = (\<lambda>namespace pod. Exits \<lparr>returncode = 1, stdout = ''''\<rparr>)\<rparr>,
      \<lparr>cycle_timestamp = 2,
       node_top = Exits \<lparr>returncode = 0,
                   stdout = ''NAME CPU(cores) CPU% MEMORY(bytes) MEMORY%'' @ [CHR 0x0A] @
                            ''node1 250m 10% 100Mi 5%''\<rparr>,
       pod_top = Exits \<lparr>returncode = 1, stdout = ''''\<rparr>,
       image_query = (\<lambda>namespace pod. Exits \<lparr>returncode = 1, stdout = ''''\<rparr>)\<rparr>]
     \<lparr>node_metrics_df = [], pod_metrics_df = []\<rparr> =
   Inr \<lparr>node_metrics_df = [\<lparr>node_timestamp = 2, node_name = ''node1'', node_cpu_cores = 250,
                             node_memory_bytes = 10\<rparr>],
        pod_metrics_df = []\<rparr>"
  by (simp add: sampler_defs)

end
